theory Spec2Isabelle
  imports Main "HOL-Library.Sublist"
begin

section \<open>The workflow state\<close>

text \<open>
  \<^verbatim>\<open>src/core/essay_writer.py\<close> declares the state of the essay workflow as the typed
  dictionary \<^verbatim>\<open>AgentState\<close>. It is a record here, one field per declared key, Python's
  unbounded \<^verbatim>\<open>int\<close> as \<open>int\<close> and \<^verbatim>\<open>Optional[t]\<close> as an option.
\<close>

record AgentState =
  task :: string
  lnode :: string
  plan :: string
  draft :: string
  critique :: string
  content :: "string list"
  queries :: "string list"
  revision_number :: int
  max_revisions :: int
  count :: int
  user_id :: "int option"
  essay_id :: "int option"
  session_id :: "string option"

text \<open>
  The values a key of the dictionary can hold. A node function returns a partial
  dictionary (some keys, each with a value); it is an association list in the order the
  source writes the keys.
\<close>

datatype py_value = PyStr string | PyList "string list" | PyInt int | PyNone

type_synonym py_dict = "(string \<times> py_value) list"

text \<open>
  An exception raised by a provider or by the engine: an instance of Python's
  \<^verbatim>\<open>Exception\<close> (what \<^verbatim>\<open>except Exception\<close> catches), with the name of its class and
  its message \<^verbatim>\<open>str(e)\<close>. The \<^verbatim>\<open>ValueError\<close> of \<^verbatim>\<open>_build_graph\<close> is a type of its own;
  it carries the two lists its message formats: the rejected \<^verbatim>\<open>interrupt_after\<close> and the
  valid node names.
\<close>

datatype py_exception = PyException (exc_class: string) (exc_message: string)

datatype value_error = ValueError "string list" "string list"

section \<open>The model and search providers\<close>

text \<open>
  \<^verbatim>\<open>self.model\<close> (a chat model) and \<^verbatim>\<open>self.tavily\<close> (a web search client) are external
  services. Each is a function from its request to either an exception or its answer:
  \<open>model_invoke\<close> is \<^verbatim>\<open>self.model.invoke(messages).content\<close>, \<open>model_queries\<close> is
  \<^verbatim>\<open>self.model.with_structured_output(Queries).invoke(messages).queries\<close>, and
  \<open>tavily_search q\<close> is the list of \<^verbatim>\<open>r['content']\<close> for \<^verbatim>\<open>r\<close> in
  \<^verbatim>\<open>self.tavily.search(query=q, max_results=2)['results']\<close>. The theorems hold for
  every such function.
\<close>

datatype message = SystemMessage string | HumanMessage string

record providers =
  model_invoke :: "message list \<Rightarrow> py_exception + string"
  model_queries :: "message list \<Rightarrow> py_exception + string list"
  tavily_search :: "string \<Rightarrow> py_exception + string list"

section \<open>Prompts\<close>

definition PLAN_PROMPT :: string where
  "PLAN_PROMPT =
     ''You are an expert writer tasked with writing a high level outline of a short 3 paragraph essay. '' @
     ''Write such an outline for the user provided topic. Give the three main headers of an outline of '' @
     ''the essay along with any relevant notes or instructions for the sections.''"

text \<open>
  \<^verbatim>\<open>WRITER_PROMPT\<close> ends with the placeholder \<^verbatim>\<open>{content}\<close>, its only one, so
  \<^verbatim>\<open>WRITER_PROMPT.format(content=c)\<close> is the text before the placeholder followed by \<open>c\<close>.
\<close>

definition WRITER_PROMPT_format :: "string \<Rightarrow> string" where
  "WRITER_PROMPT_format c =
     ''You are an essay assistant tasked with writing excellent 3 paragraph essays. '' @
     ''Generate the best essay possible for the user's request and the initial outline. '' @
     ''If the user provides critique, respond with a revised version of your previous attempts. '' @
     ''Utilize all the information below as needed: \<newline>'' @
     ''------\<newline>'' @
     c"

definition RESEARCH_PLAN_PROMPT :: string where
  "RESEARCH_PLAN_PROMPT =
     ''You are a researcher charged with providing information that can '' @
     ''be used when writing the following essay. Generate a list of search '' @
     ''queries that will gather any relevant information. Only generate 3 queries max.''"

definition REFLECTION_PROMPT :: string where
  "REFLECTION_PROMPT =
     ''You are a teacher grading a 3 paragraph essay submission. '' @
     ''Generate critique and recommendations for the user's submission. '' @
     ''Provide detailed recommendations, including requests for length, depth, style, etc.''"

definition RESEARCH_CRITIQUE_PROMPT :: string where
  "RESEARCH_CRITIQUE_PROMPT =
     ''You are a researcher charged with providing information that can '' @
     ''be used when making any requested revisions (as outlined below). '' @
     ''Generate a list of search queries that will gather any relevant information. '' @
     ''Only generate 2 queries max.''"

section \<open>The node functions\<close>

text \<open>
  The application builds its writer as \<^verbatim>\<open>EnhancedEssayWriter()\<close> (\<^verbatim>\<open>src/app.py\<close>), so
  \<^verbatim>\<open>self.db\<close> is \<^verbatim>\<open>None\<close> and every block under \<^verbatim>\<open>if self.db and state.get('essay_id')\<close>
  is skipped: the node functions are these, from the state to the dictionary they return,
  or to the exception a provider raised.
\<close>

definition plan_node :: "providers \<Rightarrow> AgentState \<Rightarrow> py_exception + py_dict" where
  "plan_node env state =
     (case model_invoke env [SystemMessage PLAN_PROMPT, HumanMessage (task state)] of
        Inl e \<Rightarrow> Inl e
      | Inr response \<Rightarrow>
          Inr [(''plan'', PyStr response), (''lnode'', PyStr ''planner''), (''count'', PyInt 1)])"

text \<open>
  The loop \<^verbatim>\<open>for q in queries.queries\<close> with its inner
  \<^verbatim>\<open>for r in response['results']: content.append(r['content'])\<close>: the snippets of each
  search go to the end of the list, and the first search that raises ends the node.
\<close>

fun search_all :: "providers \<Rightarrow> string list \<Rightarrow> string list \<Rightarrow> py_exception + string list" where
  "search_all env [] acc = Inr acc"
| "search_all env (q # qs) acc =
     (case tavily_search env q of
        Inl e \<Rightarrow> Inl e
      | Inr results \<Rightarrow> search_all env qs (acc @ results))"

text \<open>\<^verbatim>\<open>state['content'] or []\<close>: an empty list is falsy and is replaced by a new one.\<close>

definition content_or_empty :: "AgentState \<Rightarrow> string list" where
  "content_or_empty state = (if content state = [] then [] else content state)"

definition research_plan_node :: "providers \<Rightarrow> AgentState \<Rightarrow> py_exception + py_dict" where
  "research_plan_node env state =
     (case model_queries env [SystemMessage RESEARCH_PLAN_PROMPT, HumanMessage (task state)] of
        Inl e \<Rightarrow> Inl e
      | Inr qs \<Rightarrow>
          (case search_all env qs (content_or_empty state) of
             Inl e \<Rightarrow> Inl e
           | Inr c \<Rightarrow>
               Inr [(''content'', PyList c), (''queries'', PyList qs),
                    (''lnode'', PyStr ''research_plan''), (''count'', PyInt 1)]))"

text \<open>\<^verbatim>\<open>sep.join(xs)\<close>.\<close>

fun join :: "string \<Rightarrow> string list \<Rightarrow> string" where
  "join sep [] = []"
| "join sep [x] = x"
| "join sep (x # y # ys) = x @ sep @ join sep (y # ys)"

text \<open>
  \<^verbatim>\<open>state.get("revision_number", 1)\<close>: the key is always there in an \<^verbatim>\<open>AgentState\<close>
  (\<^verbatim>\<open>create_session\<close> sets it to 0), so the default is never taken.
\<close>

definition generation_node :: "providers \<Rightarrow> AgentState \<Rightarrow> py_exception + py_dict" where
  "generation_node env state =
     (let c = join ''\<newline>\<newline>'' (content_or_empty state);
          user_message =
            HumanMessage (task state @ ''\<newline>\<newline>Here is my plan:\<newline>\<newline>'' @ plan state)
      in case model_invoke env [SystemMessage (WRITER_PROMPT_format c), user_message] of
           Inl e \<Rightarrow> Inl e
         | Inr response \<Rightarrow>
             Inr [(''draft'', PyStr response),
                  (''revision_number'', PyInt (revision_number state + 1)),
                  (''lnode'', PyStr ''generate''), (''count'', PyInt 1)])"

definition reflection_node :: "providers \<Rightarrow> AgentState \<Rightarrow> py_exception + py_dict" where
  "reflection_node env state =
     (case model_invoke env [SystemMessage REFLECTION_PROMPT, HumanMessage (draft state)] of
        Inl e \<Rightarrow> Inl e
      | Inr response \<Rightarrow>
          Inr [(''critique'', PyStr response), (''lnode'', PyStr ''reflect''), (''count'', PyInt 1)])"

definition research_critique_node :: "providers \<Rightarrow> AgentState \<Rightarrow> py_exception + py_dict" where
  "research_critique_node env state =
     (case model_queries env [SystemMessage RESEARCH_CRITIQUE_PROMPT, HumanMessage (critique state)] of
        Inl e \<Rightarrow> Inl e
      | Inr qs \<Rightarrow>
          (case search_all env qs (content_or_empty state) of
             Inl e \<Rightarrow> Inl e
           | Inr c \<Rightarrow>
               Inr [(''content'', PyList c),
                    (''lnode'', PyStr ''research_critique''), (''count'', PyInt 1)]))"

text \<open>\<^verbatim>\<open>END\<close> of the graph library is the reserved node name \<^verbatim>\<open>"__end__"\<close>.\<close>

definition END :: string where
  "END = ''__end__''"

definition should_continue :: "AgentState \<Rightarrow> string" where
  "should_continue state =
     (if revision_number state > max_revisions state then END else ''reflect'')"

section \<open>The graph\<close>

text \<open>
  \<^verbatim>\<open>_build_graph_structure\<close> fills a \<^verbatim>\<open>StateGraph(AgentState)\<close> builder of the graph
  library: named nodes with their functions, edges, and conditional edges (a source node,
  a function from the state to a label, and a map from labels to target nodes). The
  library's \<^verbatim>\<open>set_entry_point(n)\<close> is an edge from its reserved start node
  \<^verbatim>\<open>"__start__"\<close> to \<open>n\<close>.
\<close>

type_synonym node_function = "providers \<Rightarrow> AgentState \<Rightarrow> py_exception + py_dict"

record graph_builder =
  nodes :: "(string \<times> node_function) list"
  edges :: "(string \<times> string) list"
  branches :: "(string \<times> (AgentState \<Rightarrow> string) \<times> (string \<times> string) list) list"

definition START :: string where
  "START = ''__start__''"

definition StateGraph :: graph_builder where
  "StateGraph = \<lparr>nodes = [], edges = [], branches = []\<rparr>"

definition add_node :: "string \<Rightarrow> node_function \<Rightarrow> graph_builder \<Rightarrow> graph_builder" where
  "add_node name f b = b\<lparr>nodes := nodes b @ [(name, f)]\<rparr>"

definition add_edge :: "string \<Rightarrow> string \<Rightarrow> graph_builder \<Rightarrow> graph_builder" where
  "add_edge a c b = b\<lparr>edges := edges b @ [(a, c)]\<rparr>"

definition set_entry_point :: "string \<Rightarrow> graph_builder \<Rightarrow> graph_builder" where
  "set_entry_point n b = add_edge START n b"

definition add_conditional_edges ::
  "string \<Rightarrow> (AgentState \<Rightarrow> string) \<Rightarrow> (string \<times> string) list \<Rightarrow> graph_builder \<Rightarrow> graph_builder" where
  "add_conditional_edges src path path_map b = b\<lparr>branches := branches b @ [(src, path, path_map)]\<rparr>"

definition build_graph_structure :: graph_builder where
  "build_graph_structure =
     (let builder = StateGraph;
          builder = add_node ''planner'' plan_node builder;
          builder = add_node ''research_plan'' research_plan_node builder;
          builder = add_node ''generate'' generation_node builder;
          builder = add_node ''reflect'' reflection_node builder;
          builder = add_node ''research_critique'' research_critique_node builder;
          builder = set_entry_point ''planner'' builder;
          builder = add_conditional_edges ''generate'' should_continue
                      [(END, END), (''reflect'', ''reflect'')] builder;
          builder = add_edge ''planner'' ''research_plan'' builder;
          builder = add_edge ''research_plan'' ''generate'' builder;
          builder = add_edge ''reflect'' ''research_critique'' builder;
          builder = add_edge ''research_critique'' ''generate'' builder
      in builder)"

text \<open>\<^verbatim>\<open>self.builder.nodes.keys()\<close>.\<close>

definition node_names :: "graph_builder \<Rightarrow> string list" where
  "node_names b = map fst (nodes b)"

text \<open>
  Where the graph goes after node \<open>n\<close> has run and left the state \<open>s\<close>: the targets of
  the edges out of \<open>n\<close>, and for each conditional edge out of \<open>n\<close> the target its map gives
  to the label its function returns on \<open>s\<close>. \<open>targets\<close> may hold \<open>END\<close>; \<open>successors\<close> are
  the nodes scheduled to run next, \<open>END\<close> scheduling none.
\<close>

definition targets :: "graph_builder \<Rightarrow> string \<Rightarrow> AgentState \<Rightarrow> string list" where
  "targets b n s =
     map snd (filter (\<lambda>e. fst e = n) (edges b)) @
     concat (map (\<lambda>(src, path, path_map).
                    if src = n then (case map_of path_map (path s) of Some t \<Rightarrow> [t] | None \<Rightarrow> [])
                    else [])
                 (branches b))"

definition successors :: "graph_builder \<Rightarrow> string \<Rightarrow> AgentState \<Rightarrow> string list" where
  "successors b n s = filter (\<lambda>t. t \<noteq> END) (targets b n s)"

section \<open>How the engine merges a node's dictionary into the state\<close>

text \<open>
  Modelled from the spec: how the engine, which is not under \<^verbatim>\<open>src/\<close>, merges what is
  written into the state. The engine consumes the state shape, and the source declares
  that shape: the engine keeps one channel per key of \<^verbatim>\<open>AgentState\<close>; a key declared
  with a plain type is overwritten by a write, and
  \<^verbatim>\<open>count: Annotated[int, operator.add]\<close> declares \<^verbatim>\<open>operator.add\<close> as the reducer of
  \<^verbatim>\<open>count\<close> (the spec's monotonically accumulated step counter), so a write of \<open>n\<close> to
  \<^verbatim>\<open>count\<close> adds \<open>n\<close> to it. A key that is not declared is ignored. A value of another
  type than the one declared for its key lies outside \<^verbatim>\<open>AgentState\<close>; the record cannot
  hold it and the model leaves the field as it is.
\<close>

definition write_channel :: "string \<Rightarrow> py_value \<Rightarrow> AgentState \<Rightarrow> AgentState" where
  "write_channel k v s =
     (if k = ''task'' then (case v of PyStr x \<Rightarrow> s\<lparr>task := x\<rparr> | _ \<Rightarrow> s)
      else if k = ''lnode'' then (case v of PyStr x \<Rightarrow> s\<lparr>lnode := x\<rparr> | _ \<Rightarrow> s)
      else if k = ''plan'' then (case v of PyStr x \<Rightarrow> s\<lparr>plan := x\<rparr> | _ \<Rightarrow> s)
      else if k = ''draft'' then (case v of PyStr x \<Rightarrow> s\<lparr>draft := x\<rparr> | _ \<Rightarrow> s)
      else if k = ''critique'' then (case v of PyStr x \<Rightarrow> s\<lparr>critique := x\<rparr> | _ \<Rightarrow> s)
      else if k = ''content'' then (case v of PyList x \<Rightarrow> s\<lparr>content := x\<rparr> | _ \<Rightarrow> s)
      else if k = ''queries'' then (case v of PyList x \<Rightarrow> s\<lparr>queries := x\<rparr> | _ \<Rightarrow> s)
      else if k = ''revision_number'' then
        (case v of PyInt x \<Rightarrow> s\<lparr>revision_number := x\<rparr> | _ \<Rightarrow> s)
      else if k = ''max_revisions'' then
        (case v of PyInt x \<Rightarrow> s\<lparr>max_revisions := x\<rparr> | _ \<Rightarrow> s)
      else if k = ''count'' then (case v of PyInt x \<Rightarrow> s\<lparr>count := count s + x\<rparr> | _ \<Rightarrow> s)
      else if k = ''user_id'' then
        (case v of PyInt x \<Rightarrow> s\<lparr>user_id := Some x\<rparr> | PyNone \<Rightarrow> s\<lparr>user_id := None\<rparr> | _ \<Rightarrow> s)
      else if k = ''essay_id'' then
        (case v of PyInt x \<Rightarrow> s\<lparr>essay_id := Some x\<rparr> | PyNone \<Rightarrow> s\<lparr>essay_id := None\<rparr> | _ \<Rightarrow> s)
      else if k = ''session_id'' then
        (case v of PyStr x \<Rightarrow> s\<lparr>session_id := Some x\<rparr> | PyNone \<Rightarrow> s\<lparr>session_id := None\<rparr>
         | _ \<Rightarrow> s)
      else s)"

definition apply_writes :: "py_dict \<Rightarrow> AgentState \<Rightarrow> AgentState" where
  "apply_writes d s = fold (\<lambda>(k, v). write_channel k v) d s"

text \<open>
  One step of the workflow: the function of node \<open>n\<close> runs on the state and the engine
  merges the dictionary it returns. An exception of the node function ends the step with
  no change to the state.
\<close>

definition node_step ::
  "graph_builder \<Rightarrow> providers \<Rightarrow> string \<Rightarrow> AgentState \<Rightarrow> py_exception + AgentState" where
  "node_step b env n s =
     (case map_of (nodes b) n of
        None \<Rightarrow> Inl (PyException ''KeyError'' n)
      | Some f \<Rightarrow> (case f env s of Inl e \<Rightarrow> Inl e | Inr d \<Rightarrow> Inr (apply_writes d s)))"

section \<open>The compiled graph: checkpoints, pause points, running and editing\<close>

text \<open>
  Modelled from the spec: the delegated graph-execution engine is an external library
  and is not under \<^verbatim>\<open>src/\<close>. The spec gives its contract: it consumes the state shape,
  the step functions, the edge conditions and the pause-point list, and produces the
  current values, the next step names and the checkpoint history; a checkpoint is a
  snapshot of the workflow state after a step; after a step named in the pause-point list
  control returns to the caller, and re-entering with the same run identifier continues
  from there. The engine's own bound on the number of steps of one invocation is not
  modelled.

  A checkpoint holds the values, the nodes scheduled next, and where it comes from: the
  source (the input of a run, a step of the loop, or a manual update) and the node whose
  write produced it.
  The memory of a compiled graph maps a thread identifier to its checkpoints, newest
  first.
\<close>

datatype source = Input | Loop | Update

record checkpoint =
  cp_values :: AgentState
  cp_next :: "string list"
  cp_source :: source
  cp_writer :: string

record compiled_graph =
  interrupt_after :: "string list option"
  memory :: "string \<Rightarrow> checkpoint list"

text \<open>\<^verbatim>\<open>{"configurable": {"thread_id": session_id}}\<close>.\<close>

record thread_config =
  thread_id :: string

definition pause_points :: "compiled_graph \<Rightarrow> string list" where
  "pause_points g = (case interrupt_after g of None \<Rightarrow> [] | Some ps \<Rightarrow> ps)"

definition get_state :: "compiled_graph \<Rightarrow> thread_config \<Rightarrow> checkpoint option" where
  "get_state g cfg = (case memory g (thread_id cfg) of [] \<Rightarrow> None | cp # _ \<Rightarrow> Some cp)"

text \<open>
  Modelled from the spec: the engine's loop. From the checkpoint \<open>cp\<close> (with the older
  ones \<open>hist\<close> below it) it runs the scheduled node with the providers of step \<open>k\<close>,
  saves a checkpoint, and goes on unless the node is a pause point, nothing is scheduled,
  or the node raised. It returns the newest checkpoint, the older ones, and the exception
  if there was one. The graph is the one \<^verbatim>\<open>__init__\<close> stores in \<^verbatim>\<open>self.builder\<close>, which no
  method assigns again.
\<close>

function run_loop ::
  "string list \<Rightarrow> (nat \<Rightarrow> providers) \<Rightarrow> nat \<Rightarrow> checkpoint \<Rightarrow> checkpoint list \<Rightarrow>
     checkpoint \<times> checkpoint list \<times> py_exception option" where
  "run_loop pause envs k cp hist =
     (case cp_next cp of
        [] \<Rightarrow> (cp, hist, None)
      | n # _ \<Rightarrow>
          (case node_step build_graph_structure (envs k) n (cp_values cp) of
             Inl e \<Rightarrow> (cp, hist, Some e)
           | Inr s' \<Rightarrow>
               (let cp' = \<lparr>cp_values = s', cp_next = successors build_graph_structure n s',
                            cp_source = Loop, cp_writer = n\<rparr>
                in if n \<in> set pause then (cp', cp # hist, None)
                   else run_loop pause envs (Suc k) cp' (cp # hist))))"
  by pat_completeness auto

text \<open>What \<^verbatim>\<open>get_state(...).values\<close> gives for a state: the dictionary of all its keys.\<close>

definition values_dict :: "AgentState \<Rightarrow> py_dict" where
  "values_dict s =
     [(''task'', PyStr (task s)), (''lnode'', PyStr (lnode s)), (''plan'', PyStr (plan s)),
      (''draft'', PyStr (draft s)), (''critique'', PyStr (critique s)),
      (''content'', PyList (content s)), (''queries'', PyList (queries s)),
      (''revision_number'', PyInt (revision_number s)),
      (''max_revisions'', PyInt (max_revisions s)), (''count'', PyInt (count s)),
      (''user_id'', case user_id s of None \<Rightarrow> PyNone | Some i \<Rightarrow> PyInt i),
      (''essay_id'', case essay_id s of None \<Rightarrow> PyNone | Some i \<Rightarrow> PyInt i),
      (''session_id'', case session_id s of None \<Rightarrow> PyNone | Some x \<Rightarrow> PyStr x)]"

definition save :: "compiled_graph \<Rightarrow> thread_config \<Rightarrow> checkpoint list \<Rightarrow> compiled_graph" where
  "save g cfg hist = g\<lparr>memory := (memory g)(thread_id cfg := hist)\<rparr>"

text \<open>
  Modelled from the spec: where \<^verbatim>\<open>graph.invoke(input, config)\<close> starts. With an input
  the run starts at the entry point, the input written to the channels of the thread;
  with no input it continues from the newest checkpoint of the thread, and there is no
  start when the thread has none. The result is the checkpoint to start from and the
  checkpoints below it.
\<close>

definition start_checkpoint ::
  "compiled_graph \<Rightarrow> AgentState option \<Rightarrow> thread_config \<Rightarrow> (checkpoint \<times> checkpoint list) option" where
  "start_checkpoint g input cfg =
     (let hist = memory g (thread_id cfg)
      in case input of
           None \<Rightarrow> (case hist of [] \<Rightarrow> None | cp # older \<Rightarrow> Some (cp, older))
         | Some init \<Rightarrow>
             (let v = (case hist of [] \<Rightarrow> init
                       | cp # _ \<Rightarrow> apply_writes (values_dict init) (cp_values cp))
              in Some (\<lparr>cp_values = v, cp_next = successors build_graph_structure START v,
                        cp_source = Input, cp_writer = START\<rparr>, hist)))"

text \<open>
  Modelled from the spec: \<^verbatim>\<open>graph.invoke(input, config)\<close>. It raises when there is
  nothing to start from; otherwise it runs the loop, keeps the checkpoints the loop wrote
  in the memory of the thread, and returns the values of the newest checkpoint, or raises
  what a node raised.
\<close>

definition invoke ::
  "compiled_graph \<Rightarrow> (nat \<Rightarrow> providers) \<Rightarrow> AgentState option \<Rightarrow> thread_config \<Rightarrow>
     (py_exception + AgentState) \<times> compiled_graph" where
  "invoke g envs input cfg =
     (case start_checkpoint g input cfg of
        None \<Rightarrow> (Inl (PyException ''EmptyInputError'' ''Received no input for __start__''), g)
      | Some (cp, older) \<Rightarrow>
          (case run_loop (pause_points g) envs 0 cp older of
             (cp', hist', err) \<Rightarrow>
               (case err of Some e \<Rightarrow> Inl e | None \<Rightarrow> Inr (cp_values cp'),
                save g cfg (cp' # hist'))))"

text \<open>
  Modelled from the spec: \<^verbatim>\<open>graph.update_state(config, values, as_node)\<close>. The values
  are written to the channels as if node \<open>as_node\<close> had returned them (so through the
  reducer of a channel that has one), and the nodes after \<open>as_node\<close> are scheduled. A
  thread with no checkpoint has no full \<^verbatim>\<open>AgentState\<close> to edit; the model does not cover
  it and gives \<open>None\<close>.
\<close>

definition graph_update_state ::
  "compiled_graph \<Rightarrow> thread_config \<Rightarrow> py_dict \<Rightarrow> string \<Rightarrow> (py_exception + compiled_graph) option" where
  "graph_update_state g cfg vals as_node =
     (case memory g (thread_id cfg) of
        [] \<Rightarrow> None
      | cp # older \<Rightarrow>
          Some (if as_node \<notin> set (node_names build_graph_structure)
                then Inl (PyException ''InvalidUpdateError'' (''Node '' @ as_node @ '' does not exist''))
                else (let v = apply_writes vals (cp_values cp);
                          cp' = \<lparr>cp_values = v, cp_next = successors build_graph_structure as_node v,
                                 cp_source = Update, cp_writer = as_node\<rparr>
                      in Inr (save g cfg (cp' # cp # older)))))"

section \<open>The writer\<close>

text \<open>
  Of the fields of \<^verbatim>\<open>EnhancedEssayWriter\<close>, \<^verbatim>\<open>self.graph\<close> is the one its methods assign.
  A method takes the writer and returns it updated, next to its result.
\<close>

record EnhancedEssayWriter =
  graph :: compiled_graph

text \<open>
  \<^verbatim>\<open>_build_graph\<close>: the check of the names, then a compiled graph over a new in-memory
  checkpoint store.
\<close>

definition build_graph :: "string list \<Rightarrow> value_error + compiled_graph" where
  "build_graph interrupt_after' =
     (if interrupt_after' \<noteq> [] \<and>
         list_ex (\<lambda>node. node \<notin> set (node_names build_graph_structure)) interrupt_after'
      then Inl (ValueError interrupt_after' (node_names build_graph_structure))
      else Inr \<lparr>interrupt_after = (if interrupt_after' = [] then None else Some interrupt_after'),
                memory = (\<lambda>_. [])\<rparr>)"

text \<open>
  \<^verbatim>\<open>create_session\<close>. \<open>uuid\<close> is the text of the identifier \<^verbatim>\<open>uuid.uuid4()\<close> draws. The
  two \<^verbatim>\<open>print\<close> calls write to the console only.
\<close>

definition create_session ::
  "EnhancedEssayWriter \<Rightarrow> string \<Rightarrow> int \<Rightarrow> int \<Rightarrow> string \<Rightarrow> int \<Rightarrow> string list \<Rightarrow>
     value_error + ((string \<times> thread_config \<times> AgentState) \<times> EnhancedEssayWriter)" where
  "create_session self uuid user_id' essay_id' topic max_revisions' interrupt_after' =
     (let session_id' = uuid in
      case build_graph interrupt_after' of
        Inl e \<Rightarrow> Inl e
      | Inr g \<Rightarrow>
          (let initial_state =
                 \<lparr>task = topic, lnode = '''', plan = '''', draft = '''', critique = '''',
                  content = [], queries = [], revision_number = 0,
                  max_revisions = max_revisions', count = 0,
                  user_id = Some user_id', essay_id = Some essay_id',
                  session_id = Some session_id'\<rparr>;
               thread_config = \<lparr>thread_id = session_id'\<rparr>
           in Inr ((session_id', thread_config, initial_state), self\<lparr>graph := g\<rparr>)))"

text \<open>
  The dictionary \<^verbatim>\<open>run_step\<close> returns. A key the dictionary does not have, or has with
  the value \<^verbatim>\<open>None\<close>, is \<open>None\<close>: the failure dictionary has no \<^verbatim>\<open>response\<close> and no
  \<^verbatim>\<open>metadata\<close>, the success dictionary no \<^verbatim>\<open>error\<close>. The metadata is the source of the
  checkpoint and the node that wrote it.
\<close>

record step_result =
  success :: bool
  error :: "string option"
  response :: "AgentState option"
  current_state :: "AgentState option"
  next_node :: "string list option"
  metadata :: "(source \<times> string) option"

definition run_step ::
  "EnhancedEssayWriter \<Rightarrow> (nat \<Rightarrow> providers) \<Rightarrow> thread_config \<Rightarrow> AgentState option \<Rightarrow>
     step_result \<times> EnhancedEssayWriter" where
  "run_step self envs thread_config' initial_state =
     (case invoke (graph self) envs initial_state thread_config' of
        (Inl e, g) \<Rightarrow>
          (\<lparr>success = False, error = Some (exc_message e), response = None,
            current_state = None, next_node = None, metadata = None\<rparr>,
           self\<lparr>graph := g\<rparr>)
      | (Inr response', g) \<Rightarrow>
          (let current = get_state g thread_config'
           in (\<lparr>success = True, error = None, response = Some response',
                current_state = map_option cp_values current,
                next_node = map_option cp_next current,
                metadata = map_option (\<lambda>c. (cp_source c, cp_writer c)) current\<rparr>,
               self\<lparr>graph := g\<rparr>)))"

text \<open>\<^verbatim>\<open>d[key] = value\<close> on a dictionary.\<close>

fun dict_set :: "string \<Rightarrow> py_value \<Rightarrow> py_dict \<Rightarrow> py_dict" where
  "dict_set k v [] = [(k, v)]"
| "dict_set k v ((k', v') # d) = (if k' = k then (k, v) # d else (k', v') # dict_set k v d)"

text \<open>
  \<^verbatim>\<open>update_state\<close> and the dictionary it returns (\<^verbatim>\<open>success\<close>, and \<^verbatim>\<open>error\<close> when the
  engine raised). It reads the newest checkpoint, replaces one key in the dictionary of
  its values, and hands the whole dictionary to the engine.
\<close>

record update_result =
  upd_success :: bool
  upd_error :: "string option"

definition update_state ::
  "EnhancedEssayWriter \<Rightarrow> thread_config \<Rightarrow> string \<Rightarrow> py_value \<Rightarrow> string \<Rightarrow>
     (update_result \<times> EnhancedEssayWriter) option" where
  "update_state self thread_config' key value as_node =
     (case get_state (graph self) thread_config' of
        None \<Rightarrow> None
      | Some current \<Rightarrow>
          (let vals = dict_set key value (values_dict (cp_values current))
           in case graph_update_state (graph self) thread_config' vals as_node of
                None \<Rightarrow> None
              | Some (Inl e) \<Rightarrow>
                  Some (\<lparr>upd_success = False, upd_error = Some (exc_message e)\<rparr>, self)
              | Some (Inr g) \<Rightarrow>
                  Some (\<lparr>upd_success = True, upd_error = None\<rparr>, self\<lparr>graph := g\<rparr>)))"

section \<open>The loop ends\<close>

text \<open>
  The measure under which every turn of \<open>run_loop\<close> that goes on gets smaller: three
  times the number of revisions still allowed, plus the distance of the scheduled node to
  the next \<^verbatim>\<open>generate\<close>.
\<close>

definition node_weight :: "string \<Rightarrow> nat" where
  "node_weight n =
     (if n = ''planner'' then 3 else if n = ''research_plan'' then 2
      else if n = ''generate'' then 1 else if n = ''reflect'' then 3
      else if n = ''research_critique'' then 2 else 0)"

definition loop_measure :: "checkpoint \<Rightarrow> nat" where
  "loop_measure cp =
     (case cp_next cp of
        [] \<Rightarrow> 0
      | n # _ \<Rightarrow>
          3 * nat (max_revisions (cp_values cp) + 1 - revision_number (cp_values cp)) +
          node_weight n)"

section \<open>Examples for the witnesses\<close>

definition example_providers :: providers where
  "example_providers =
     \<lparr>model_invoke = (\<lambda>_. Inr ''text''),
      model_queries = (\<lambda>_. Inr [''q1'', ''q2'']),
      tavily_search = (\<lambda>q. Inr [q @ '' a'', q @ '' b''])\<rparr>"

definition failing_providers :: providers where
  "failing_providers =
     \<lparr>model_invoke = (\<lambda>_. Inl (PyException ''APIError'' ''rate limit'')),
      model_queries = (\<lambda>_. Inl (PyException ''APIError'' ''rate limit'')),
      tavily_search = (\<lambda>_. Inl (PyException ''APIError'' ''rate limit''))\<rparr>"

definition example_state :: AgentState where
  "example_state =
     \<lparr>task = ''cats'', lnode = ''research_plan'', plan = ''outline'', draft = '''',
      critique = ''too short'', content = [''old snippet''], queries = [''old query''],
      revision_number = 0, max_revisions = 2, count = 2,
      user_id = Some 1, essay_id = Some 7, session_id = Some ''s1''\<rparr>"

text \<open>
  The writer as \<^verbatim>\<open>__init__\<close> leaves it (\<^verbatim>\<open>self.graph = self._build_graph()\<close>, with no
  pause point and an empty memory), a session with the pause point \<^verbatim>\<open>planner\<close>, and the
  writer after the first \<^verbatim>\<open>run_step\<close> of that session, paused after \<^verbatim>\<open>planner\<close>.
\<close>

definition new_writer :: EnhancedEssayWriter where
  "new_writer = \<lparr>graph = \<lparr>interrupt_after = None, memory = (\<lambda>_. [])\<rparr>\<rparr>"

definition session_state :: AgentState where
  "session_state =
     \<lparr>task = ''cats'', lnode = [], plan = [], draft = [], critique = [],
      content = [], queries = [], revision_number = 0, max_revisions = 2, count = 0,
      user_id = Some 1, essay_id = Some 7, session_id = Some ''s1''\<rparr>"

definition session_writer :: EnhancedEssayWriter where
  "session_writer = \<lparr>graph = \<lparr>interrupt_after = Some [''planner''], memory = (\<lambda>_. [])\<rparr>\<rparr>"

definition input_checkpoint :: checkpoint where
  "input_checkpoint =
     \<lparr>cp_values = session_state, cp_next = [''planner''], cp_source = Input, cp_writer = START\<rparr>"

definition planner_checkpoint :: checkpoint where
  "planner_checkpoint =
     \<lparr>cp_values = session_state\<lparr>plan := ''text'', lnode := ''planner'', count := 1\<rparr>,
      cp_next = [''research_plan''], cp_source = Loop, cp_writer = ''planner''\<rparr>"

definition paused_writer :: EnhancedEssayWriter where
  "paused_writer =
     \<lparr>graph = \<lparr>interrupt_after = Some [''planner''],
               memory = (\<lambda>_. [])(''s1'' := [planner_checkpoint, input_checkpoint])\<rparr>\<rparr>"

definition research_plan_checkpoint :: checkpoint where
  "research_plan_checkpoint =
     \<lparr>cp_values = (cp_values planner_checkpoint)
        \<lparr>content := [''q1 a'', ''q1 b'', ''q2 a'', ''q2 b''], queries := [''q1'', ''q2''],
         lnode := ''research_plan'', count := 2\<rparr>,
      cp_next = [''generate''], cp_source = Loop, cp_writer = ''research_plan''\<rparr>"

section \<open>Facts about the graph and the steps\<close>

lemma nodes_build_graph_structure:
  "nodes build_graph_structure =
     [(''planner'', plan_node), (''research_plan'', research_plan_node),
      (''generate'', generation_node), (''reflect'', reflection_node),
      (''research_critique'', research_critique_node)]"
  by (simp add: build_graph_structure_def StateGraph_def add_node_def add_edge_def
      set_entry_point_def add_conditional_edges_def)

lemma edges_build_graph_structure:
  "edges build_graph_structure =
     [(START, ''planner''), (''planner'', ''research_plan''), (''research_plan'', ''generate''),
      (''reflect'', ''research_critique''), (''research_critique'', ''generate'')]"
  by (simp add: build_graph_structure_def StateGraph_def add_node_def add_edge_def
      set_entry_point_def add_conditional_edges_def)

lemma branches_build_graph_structure:
  "branches build_graph_structure =
     [(''generate'', should_continue, [(END, END), (''reflect'', ''reflect'')])]"
  by (simp add: build_graph_structure_def StateGraph_def add_node_def add_edge_def
      set_entry_point_def add_conditional_edges_def)

lemma targets_build_graph_structure:
  "targets build_graph_structure n s =
     (if n = START then [''planner'']
      else if n = ''planner'' then [''research_plan'']
      else if n = ''research_plan'' then [''generate'']
      else if n = ''generate'' then
        [if revision_number s > max_revisions s then END else ''reflect'']
      else if n = ''reflect'' then [''research_critique'']
      else if n = ''research_critique'' then [''generate'']
      else [])"
  by (simp add: targets_def edges_build_graph_structure branches_build_graph_structure
      should_continue_def START_def END_def)

lemma successors_build_graph_structure:
  "successors build_graph_structure n s =
     (if n = START then [''planner'']
      else if n = ''planner'' then [''research_plan'']
      else if n = ''research_plan'' then [''generate'']
      else if n = ''generate'' then
        (if revision_number s > max_revisions s then [] else [''reflect''])
      else if n = ''reflect'' then [''research_critique'']
      else if n = ''research_critique'' then [''generate'']
      else [])"
  by (simp add: successors_def targets_build_graph_structure END_def)

lemma node_step_build_graph_structure:
  "node_step build_graph_structure env n s =
     (if n = ''planner'' then
        (case model_invoke env [SystemMessage PLAN_PROMPT, HumanMessage (task s)] of
           Inl e \<Rightarrow> Inl e
         | Inr r \<Rightarrow> Inr (s\<lparr>plan := r, lnode := ''planner'', count := count s + 1\<rparr>))
      else if n = ''research_plan'' then
        (case model_queries env [SystemMessage RESEARCH_PLAN_PROMPT, HumanMessage (task s)] of
           Inl e \<Rightarrow> Inl e
         | Inr qs \<Rightarrow>
             (case search_all env qs (content s) of
                Inl e \<Rightarrow> Inl e
              | Inr c \<Rightarrow> Inr (s\<lparr>content := c, queries := qs, lnode := ''research_plan'',
                                 count := count s + 1\<rparr>)))
      else if n = ''generate'' then
        (case model_invoke env
                [SystemMessage (WRITER_PROMPT_format (join ''\<newline>\<newline>'' (content s))),
                 HumanMessage (task s @ ''\<newline>\<newline>Here is my plan:\<newline>\<newline>'' @ plan s)] of
           Inl e \<Rightarrow> Inl e
         | Inr r \<Rightarrow> Inr (s\<lparr>draft := r, revision_number := revision_number s + 1,
                            lnode := ''generate'', count := count s + 1\<rparr>))
      else if n = ''reflect'' then
        (case model_invoke env [SystemMessage REFLECTION_PROMPT, HumanMessage (draft s)] of
           Inl e \<Rightarrow> Inl e
         | Inr r \<Rightarrow> Inr (s\<lparr>critique := r, lnode := ''reflect'', count := count s + 1\<rparr>))
      else if n = ''research_critique'' then
        (case model_queries env [SystemMessage RESEARCH_CRITIQUE_PROMPT, HumanMessage (critique s)] of
           Inl e \<Rightarrow> Inl e
         | Inr qs \<Rightarrow>
             (case search_all env qs (content s) of
                Inl e \<Rightarrow> Inl e
              | Inr c \<Rightarrow> Inr (s\<lparr>content := c, lnode := ''research_critique'',
                                 count := count s + 1\<rparr>)))
      else Inl (PyException ''KeyError'' n))"
  by (simp add: node_step_def nodes_build_graph_structure plan_node_def research_plan_node_def
      generation_node_def reflection_node_def research_critique_node_def apply_writes_def
      write_channel_def content_or_empty_def Let_def split: sum.splits)

lemma node_step_revision:
  assumes "node_step build_graph_structure env n s = Inr s'"
  shows "revision_number s' = (if n = ''generate'' then revision_number s + 1 else revision_number s)
         \<and> max_revisions s' = max_revisions s \<and> task s' = task s \<and> lnode s' = n
         \<and> count s' = count s + 1"
  using assms
  by (auto simp add: node_step_build_graph_structure split: if_splits sum.splits)

lemma loop_measure_decreases:
  assumes "cp_next cp = n # ns"
      and "node_step build_graph_structure env n (cp_values cp) = Inr s'"
  shows "loop_measure \<lparr>cp_values = s', cp_next = successors build_graph_structure n s',
                       cp_source = src, cp_writer = w\<rparr> < loop_measure cp"
  using assms(1) node_step_revision [OF assms(2)] assms(2)
  by (auto simp add: loop_measure_def node_weight_def successors_build_graph_structure START_def
      node_step_build_graph_structure split: if_splits)

termination run_loop
proof (relation "measure (\<lambda>(pause, envs, k, cp, hist). loop_measure cp)")
  show "wf (measure (\<lambda>(pause, envs, k, cp, hist). loop_measure cp))" by simp
next
  fix pause :: "string list" and envs :: "nat \<Rightarrow> providers" and k :: nat
    and cp :: checkpoint and hist :: "checkpoint list" and n ns s' cp'
  assume "cp_next cp = n # ns"
     and "node_step build_graph_structure (envs k) n (cp_values cp) = Inr s'"
     and "cp' = \<lparr>cp_values = s', cp_next = successors build_graph_structure n s',
                 cp_source = Loop, cp_writer = n\<rparr>"
     and "n \<notin> set pause"
  then show "((pause, envs, Suc k, cp', cp # hist), (pause, envs, k, cp, hist))
             \<in> measure (\<lambda>(pause, envs, k, cp, hist). loop_measure cp)"
    using loop_measure_decreases by simp
qed

declare run_loop.simps [simp del]


lemma search_all_prefix: "search_all env qs acc = Inr c \<Longrightarrow> prefix acc c"
proof (induction qs arbitrary: acc)
  case Nil
  then show ?case by simp
next
  case (Cons q qs)
  show ?case
  proof (cases "tavily_search env q")
    case (Inl e)
    with Cons.prems show ?thesis by simp
  next
    case (Inr results)
    with Cons.prems have "search_all env qs (acc @ results) = Inr c" by simp
    then have "prefix (acc @ results) c" by (rule Cons.IH)
    then show ?thesis by (rule append_prefixD)
  qed
qed

lemma example_generate:
  "node_step build_graph_structure example_providers ''generate'' example_state =
     Inr (example_state\<lparr>draft := ''text'', revision_number := 1, lnode := ''generate'',
                        count := 3\<rparr>)"
  by (simp add: node_step_build_graph_structure example_providers_def example_state_def)

lemma example_research_critique:
  "node_step build_graph_structure example_providers ''research_critique'' example_state =
     Inr (example_state\<lparr>content := [''old snippet'', ''q1 a'', ''q1 b'', ''q2 a'', ''q2 b''],
                        lnode := ''research_critique'', count := 3\<rparr>)"
  by (simp add: node_step_build_graph_structure example_providers_def example_state_def)

lemma successors_no_self_loop: "n \<notin> set (successors build_graph_structure n s)"
  by (simp add: successors_build_graph_structure START_def)

lemma run_loop_history:
  "run_loop pause envs k cp hist = (cp', hist', err) \<Longrightarrow>
     \<exists>new. cp' # hist' = new @ cp # hist \<and>
           (\<forall>c\<in>set new. cp_source c = Loop \<and>
                         cp_next c = successors build_graph_structure (cp_writer c) (cp_values c)) \<and>
           (\<forall>c\<in>set (tl new). cp_writer c \<notin> set pause) \<and>
           (err = None \<and> cp_next cp' \<noteq> [] \<longrightarrow> new \<noteq> [] \<and> cp_writer cp' \<in> set pause)"
proof (induction pause envs k cp hist arbitrary: cp' hist' err rule: run_loop.induct)
  case (1 pause envs k cp hist)
  show ?case
  proof (cases "cp_next cp")
    case Nil
    with "1.prems" have "cp' = cp" "hist' = hist" "err = None"
      by (simp_all add: run_loop.simps [of pause envs k cp hist])
    with Nil show ?thesis by simp
  next
    case (Cons n ns)
    show ?thesis
    proof (cases "node_step build_graph_structure (envs k) n (cp_values cp)")
      case (Inl e)
      with Cons "1.prems" have "cp' = cp" "hist' = hist" "err = Some e"
        by (simp_all add: run_loop.simps [of pause envs k cp hist])
      then show ?thesis by simp
    next
      case (Inr s')
      define cp1 where "cp1 = \<lparr>cp_values = s', cp_next = successors build_graph_structure n s',
                               cp_source = Loop, cp_writer = n\<rparr>"
      show ?thesis
      proof (cases "n \<in> set pause")
        case True
        with Cons Inr "1.prems" have "cp' = cp1" "hist' = cp # hist" "err = None"
          by (simp_all add: run_loop.simps [of pause envs k cp hist] cp1_def)
        with True show ?thesis
          by (intro exI [of _ "[cp1]"]) (simp add: cp1_def)
      next
        case False
        with Cons Inr "1.prems" have r: "run_loop pause envs (Suc k) cp1 (cp # hist) = (cp', hist', err)"
          by (simp add: run_loop.simps [of pause envs k cp hist] cp1_def)
        from "1.IH" [OF Cons Inr cp1_def False r]
        obtain new where new: "cp' # hist' = new @ cp1 # cp # hist"
          and src: "\<forall>c\<in>set new. cp_source c = Loop \<and>
                      cp_next c = successors build_graph_structure (cp_writer c) (cp_values c)"
          and tl: "\<forall>c\<in>set (tl new). cp_writer c \<notin> set pause"
          and stop: "err = None \<and> cp_next cp' \<noteq> [] \<longrightarrow> new \<noteq> [] \<and> cp_writer cp' \<in> set pause"
          by (elim exE conjE)
        have a: "cp' # hist' = (new @ [cp1]) @ cp # hist" using new by simp
        have b: "\<forall>c\<in>set (new @ [cp1]). cp_source c = Loop \<and>
                   cp_next c = successors build_graph_structure (cp_writer c) (cp_values c)"
          using src by (simp add: cp1_def)
        have c: "\<forall>c\<in>set (tl (new @ [cp1])). cp_writer c \<notin> set pause"
          using tl False by (cases new) (simp_all add: cp1_def)
        have d: "err = None \<and> cp_next cp' \<noteq> [] \<longrightarrow> new @ [cp1] \<noteq> [] \<and> cp_writer cp' \<in> set pause"
          using stop by simp
        from a b c d show ?thesis by (intro exI [of _ "new @ [cp1]"] conjI)
      qed
    qed
  qed
qed

lemma run_loop_first_step:
  assumes "run_loop pause envs k cp hist = (cp', hist', err)" and "cp_next cp = n # ns"
  shows "case node_step build_graph_structure (envs k) n (cp_values cp) of
           Inl e \<Rightarrow> cp' = cp \<and> hist' = hist \<and> err = Some e
         | Inr s' \<Rightarrow>
             (\<exists>new. cp' # hist' =
                new @ \<lparr>cp_values = s', cp_next = successors build_graph_structure n s',
                        cp_source = Loop, cp_writer = n\<rparr> # cp # hist)"
proof (cases "node_step build_graph_structure (envs k) n (cp_values cp)")
  case (Inl e)
  with assms show ?thesis by (simp add: run_loop.simps [of pause envs k cp hist])
next
  case (Inr s')
  define cp1 where "cp1 = \<lparr>cp_values = s', cp_next = successors build_graph_structure n s',
                           cp_source = Loop, cp_writer = n\<rparr>"
  have "\<exists>new. cp' # hist' = new @ cp1 # cp # hist"
  proof (cases "n \<in> set pause")
    case True
    with assms Inr have "cp' # hist' = [] @ cp1 # cp # hist"
      by (simp add: run_loop.simps [of pause envs k cp hist] cp1_def)
    then show ?thesis by (rule exI)
  next
    case False
    with assms Inr have "run_loop pause envs (Suc k) cp1 (cp # hist) = (cp', hist', err)"
      by (simp add: run_loop.simps [of pause envs k cp hist] cp1_def)
    from run_loop_history [OF this] obtain new where "cp' # hist' = new @ cp1 # cp # hist"
      by (elim exE conjE)
    then show ?thesis by (rule exI)
  qed
  with Inr show ?thesis by (simp add: cp1_def)
qed

lemma memory_save: "memory (save g cfg h) (thread_id cfg) = h"
  by (simp add: save_def)

lemma pause_points_save: "pause_points (save g cfg h) = pause_points g"
  by (simp add: save_def pause_points_def)

lemma get_state_save: "get_state (save g cfg (cp # older)) cfg = Some cp"
  by (simp add: get_state_def save_def)

lemma run_step_success:
  assumes "run_step self envs cfg input = (res, self')" and "success res"
  shows "\<exists>start below cp' hist'.
           start_checkpoint (graph self) input cfg = Some (start, below) \<and>
           run_loop (pause_points (graph self)) envs 0 start below = (cp', hist', None) \<and>
           self' = self\<lparr>graph := save (graph self) cfg (cp' # hist')\<rparr> \<and>
           current_state res = Some (cp_values cp') \<and> next_node res = Some (cp_next cp') \<and>
           metadata res = Some (cp_source cp', cp_writer cp')"
proof (cases "start_checkpoint (graph self) input cfg")
  case None
  with assms show ?thesis by (auto simp add: run_step_def invoke_def)
next
  case (Some p)
  obtain start below where p: "p = (start, below)" by (cases p)
  obtain cp' hist' err where r: "run_loop (pause_points (graph self)) envs 0 start below = (cp', hist', err)"
    by (cases "run_loop (pause_points (graph self)) envs 0 start below")
  show ?thesis
  proof (cases err)
    case None
    with assms Some p r have
      "self' = self\<lparr>graph := save (graph self) cfg (cp' # hist')\<rparr>"
      "current_state res = Some (cp_values cp')" "next_node res = Some (cp_next cp')"
      "metadata res = Some (cp_source cp', cp_writer cp')"
      by (auto simp add: run_step_def invoke_def get_state_def memory_save)
    with Some p r None show ?thesis by simp
  next
    case (Some e)
    with assms \<open>start_checkpoint (graph self) input cfg = Some p\<close> p r show ?thesis
      by (auto simp add: run_step_def invoke_def)
  qed
qed

lemma run_step_resume:
  assumes "run_step self envs cfg None = (res, self')"
      and "memory (graph self) (thread_id cfg) = cp # older"
  shows "\<exists>cp' hist' err.
           run_loop (pause_points (graph self)) envs 0 cp older = (cp', hist', err) \<and>
           memory (graph self') (thread_id cfg) = cp' # hist' \<and>
           (case err of
              Some e \<Rightarrow> res = \<lparr>success = False, error = Some (exc_message e), response = None,
                               current_state = None, next_node = None, metadata = None\<rparr>
            | None \<Rightarrow> success res)"
proof -
  have s: "start_checkpoint (graph self) None cfg = Some (cp, older)"
    using assms(2) by (simp add: start_checkpoint_def)
  obtain cp' hist' err where r: "run_loop (pause_points (graph self)) envs 0 cp older = (cp', hist', err)"
    by (cases "run_loop (pause_points (graph self)) envs 0 cp older")
  from assms(1) s r have "memory (graph self') (thread_id cfg) = cp' # hist'"
    by (auto simp add: run_step_def invoke_def memory_save Let_def split: option.splits)
  moreover from assms(1) s r have
    "case err of
       Some e \<Rightarrow> res = \<lparr>success = False, error = Some (exc_message e), response = None,
                        current_state = None, next_node = None, metadata = None\<rparr>
     | None \<Rightarrow> success res"
    by (auto simp add: run_step_def invoke_def Let_def split: option.splits)
  ultimately show ?thesis using r by simp
qed

lemma start_checkpoint_memory:
  assumes "start_checkpoint g input cfg = Some (start, below)"
  shows "(input = None \<and> start # below = memory g (thread_id cfg)) \<or>
         (cp_source start = Input \<and> below = memory g (thread_id cfg))"
  using assms
  by (auto simp add: start_checkpoint_def Let_def split: option.splits list.splits)

lemma node_names_build_graph_structure:
  "node_names build_graph_structure =
     [''planner'', ''research_plan'', ''generate'', ''reflect'', ''research_critique'']"
  by (simp add: node_names_def nodes_build_graph_structure)

lemma example_create_session:
  "create_session new_writer ''s1'' 1 7 ''cats'' 2 [''planner''] =
     Inr ((''s1'', \<lparr>thread_id = ''s1''\<rparr>, session_state), session_writer)"
  by (simp add: create_session_def build_graph_def node_names_build_graph_structure
      Let_def session_state_def session_writer_def new_writer_def)

lemma example_start:
  "start_checkpoint (graph session_writer) (Some session_state) \<lparr>thread_id = ''s1''\<rparr> =
     Some (input_checkpoint, [])"
  by (simp add: start_checkpoint_def session_writer_def input_checkpoint_def
      successors_build_graph_structure)

lemma example_pause_points: "pause_points (graph session_writer) = [''planner'']"
  by (simp add: pause_points_def session_writer_def)

lemma example_loop1:
  "run_loop [''planner''] (\<lambda>_. example_providers) 0 input_checkpoint [] =
     (planner_checkpoint, [input_checkpoint], None)"
  by (subst run_loop.simps)
    (simp add: input_checkpoint_def planner_checkpoint_def node_step_build_graph_structure
      example_providers_def successors_build_graph_structure START_def session_state_def)

lemma example_run1:
  "run_step session_writer (\<lambda>_. example_providers) \<lparr>thread_id = ''s1''\<rparr> (Some session_state) =
     (\<lparr>success = True, error = None, response = Some (cp_values planner_checkpoint),
       current_state = Some (cp_values planner_checkpoint),
       next_node = Some [''research_plan''], metadata = Some (Loop, ''planner'')\<rparr>,
      paused_writer)"
  by (simp add: run_step_def invoke_def example_start example_pause_points example_loop1
      get_state_save)
    (simp add: save_def session_writer_def paused_writer_def planner_checkpoint_def)

lemma example_failing_loop:
  "run_loop [''planner''] (\<lambda>_. failing_providers) 0 input_checkpoint [] =
     (input_checkpoint, [], Some (PyException ''APIError'' ''rate limit''))"
  by (subst run_loop.simps)
    (simp add: input_checkpoint_def node_step_build_graph_structure failing_providers_def)

lemma example_failing_invoke:
  "fst (invoke (graph session_writer) (\<lambda>_. failing_providers) (Some session_state)
          \<lparr>thread_id = ''s1''\<rparr>) = Inl (PyException ''APIError'' ''rate limit'')"
  by (simp add: invoke_def example_start example_pause_points example_failing_loop)

lemma example_research_plan:
  "node_step build_graph_structure example_providers ''research_plan''
     (cp_values planner_checkpoint) = Inr (cp_values research_plan_checkpoint)"
  by (simp add: node_step_build_graph_structure example_providers_def planner_checkpoint_def
      research_plan_checkpoint_def session_state_def)

lemma example_research_plan_next:
  "successors build_graph_structure ''research_plan'' (cp_values research_plan_checkpoint) =
     [''generate'']"
  by (simp add: successors_build_graph_structure START_def)

text \<open>
  Writing the dictionary of the current values back to the channels changes one field:
  \<open>count\<close>, to which its own value is added.
\<close>

lemma apply_writes_values_dict:
  "apply_writes (values_dict s) s = s\<lparr>count := count s + count s\<rparr>"
  by (cases s) (simp add: apply_writes_def values_dict_def write_channel_def split: option.splits)

lemma apply_writes_plan:
  "apply_writes (dict_set ''plan'' (PyStr x) (values_dict s)) s =
     s\<lparr>plan := x, count := count s + count s\<rparr>"
  by (cases s) (simp add: apply_writes_def values_dict_def write_channel_def split: option.splits)

section \<open>The conditional edge\<close>

text \<open>
  C1. On every state, \<open>should_continue\<close> returns \<open>END\<close> exactly when \<open>revision_number\<close> is
  greater than \<open>max_revisions\<close>, and \<^verbatim>\<open>"reflect"\<close> exactly when it is not. So after a
  \<^verbatim>\<open>generate\<close> step the graph schedules no node exactly when \<open>revision_number\<close> exceeds
  \<open>max_revisions\<close>, and schedules \<^verbatim>\<open>reflect\<close> otherwise.
\<close>

theorem should_continue_end_iff:
  "(should_continue s = END) = (revision_number s > max_revisions s) \<and>
   (should_continue s = ''reflect'') = (\<not> revision_number s > max_revisions s) \<and>
   (successors build_graph_structure ''generate'' s = []) = (revision_number s > max_revisions s) \<and>
   (successors build_graph_structure ''generate'' s = [''reflect'']) =
     (\<not> revision_number s > max_revisions s)"
  by (simp add: should_continue_def END_def successors_build_graph_structure START_def)

section \<open>What a step does to the state\<close>

text \<open>
  C2. Whatever node runs, whatever the providers answer and whatever the state, a step
  that completes leaves \<open>revision_number\<close> one greater when the node is \<^verbatim>\<open>generate\<close> and
  unchanged when it is any other node; so \<open>revision_number\<close> never decreases.
\<close>

theorem revision_number_monotone:
  assumes "node_step build_graph_structure env n s = Inr s'"
  shows "revision_number s' =
           (if n = ''generate'' then revision_number s + 1 else revision_number s) \<and>
         revision_number s \<le> revision_number s'"
  using node_step_revision [OF assms] by simp

theorem revision_number_monotone_witness:
  "\<exists>s'. node_step build_graph_structure example_providers ''generate'' example_state = Inr s' \<and>
        revision_number s' = revision_number example_state + 1 \<and>
        revision_number example_state \<le> revision_number s'"
proof -
  have "revision_number (example_state\<lparr>draft := ''text'', revision_number := 1,
            lnode := ''generate'', count := 3\<rparr>) =
          (if ''generate'' = ''generate'' then revision_number example_state + 1
           else revision_number example_state) \<and>
        revision_number example_state \<le> revision_number (example_state\<lparr>draft := ''text'',
            revision_number := 1, lnode := ''generate'', count := 3\<rparr>)"
    by (rule revision_number_monotone [OF example_generate])
  then show ?thesis
    using example_generate by (intro exI [of _ "example_state\<lparr>draft := ''text'',
      revision_number := 1, lnode := ''generate'', count := 3\<rparr>"]) simp
qed

text \<open>
  C3. For every step that completes, the content list of the resulting state has the
  content list of the starting state as a prefix: the research nodes append the snippets
  of their searches, and no node removes or reorders an entry.
\<close>

theorem content_append_only:
  assumes "node_step build_graph_structure env n s = Inr s'"
  shows "prefix (content s) (content s')"
  using assms
  by (auto simp add: node_step_build_graph_structure search_all_prefix
      split: if_splits sum.splits)

theorem content_append_only_witness:
  "prefix (content example_state)
     [''old snippet'', ''q1 a'', ''q1 b'', ''q2 a'', ''q2 b'']"
  using content_append_only [OF example_research_critique] by simp

text \<open>
  C7. For every step that completes, the task of the resulting state is the task of the
  starting state.
\<close>

theorem task_immutable:
  assumes "node_step build_graph_structure env n s = Inr s'"
  shows "task s' = task s"
  using node_step_revision [OF assms] by simp

theorem task_immutable_witness:
  "\<exists>s'. node_step build_graph_structure example_providers ''generate'' example_state = Inr s' \<and>
        task s' = ''cats''"
proof -
  have "task (example_state\<lparr>draft := ''text'', revision_number := 1, lnode := ''generate'',
                            count := 3\<rparr>) = task example_state"
    by (rule task_immutable [OF example_generate])
  then show ?thesis
    using example_generate by (intro exI [of _ "example_state\<lparr>draft := ''text'',
      revision_number := 1, lnode := ''generate'', count := 3\<rparr>"]) (simp add: example_state_def)
qed

text \<open>
  C5. The claim is that after a research step the \<open>queries\<close> of the state are the search
  queries that step generated. \<open>research_plan_node\<close> returns them under \<^verbatim>\<open>"queries"\<close>;
  \<open>research_critique_node\<close> does not, and the state keeps the queries of the earlier
  research step. Here the model generates \<^verbatim>\<open>q1\<close> and \<^verbatim>\<open>q2\<close> for the critique, and after
  the step the state still holds \<^verbatim>\<open>old query\<close>.
\<close>

theorem research_critique_keeps_old_queries:
  "model_queries example_providers
     [SystemMessage RESEARCH_CRITIQUE_PROMPT, HumanMessage (critique example_state)] =
       Inr [''q1'', ''q2''] \<and>
   (\<exists>s'. node_step build_graph_structure example_providers ''research_critique'' example_state
            = Inr s' \<and> queries s' = [''old query''])"
  by (simp add: example_research_critique) (simp add: example_providers_def example_state_def)

section \<open>The transitions of the graph\<close>

text \<open>
  C6. The graph has the five nodes \<^verbatim>\<open>planner\<close>, \<^verbatim>\<open>research_plan\<close>, \<^verbatim>\<open>generate\<close>,
  \<^verbatim>\<open>reflect\<close> and \<^verbatim>\<open>research_critique\<close>, and its transitions are exactly these: the entry
  goes to \<^verbatim>\<open>planner\<close>, \<^verbatim>\<open>planner\<close> to \<^verbatim>\<open>research_plan\<close>, \<^verbatim>\<open>research_plan\<close> to
  \<^verbatim>\<open>generate\<close>, \<^verbatim>\<open>generate\<close> to \<open>END\<close> or to \<^verbatim>\<open>reflect\<close> as the conditional says,
  \<^verbatim>\<open>reflect\<close> to \<^verbatim>\<open>research_critique\<close>, \<^verbatim>\<open>research_critique\<close> back to \<^verbatim>\<open>generate\<close>; from
  any other name there is no transition.
\<close>

theorem workflow_graph_transitions:
  "node_names build_graph_structure =
     [''planner'', ''research_plan'', ''generate'', ''reflect'', ''research_critique''] \<and>
   targets build_graph_structure n s =
     (if n = START then [''planner'']
      else if n = ''planner'' then [''research_plan'']
      else if n = ''research_plan'' then [''generate'']
      else if n = ''generate'' then
        [if revision_number s > max_revisions s then END else ''reflect'']
      else if n = ''reflect'' then [''research_critique'']
      else if n = ''research_critique'' then [''generate'']
      else [])"
  by (simp add: node_names_def nodes_build_graph_structure targets_build_graph_structure)

section \<open>Creating a session\<close>

text \<open>
  C10. \<open>create_session\<close> raises \<^verbatim>\<open>ValueError\<close> exactly when the list \<open>interrupt_after\<close> is
  not empty and holds a name that is none of the five node names. Otherwise it returns the
  session identifier drawn for this call, a thread configuration whose \<open>thread_id\<close> is
  that identifier, and an initial state with \<open>revision_number\<close> 0, \<open>count\<close> 0, empty
  \<open>plan\<close>, \<open>draft\<close>, \<open>critique\<close> and \<open>lnode\<close>, and empty \<open>content\<close> and \<open>queries\<close>; the
  writer gets a newly compiled graph with an empty memory.
\<close>

theorem create_session_result:
  "(\<exists>e. create_session self uuid uid eid topic maxrev ia = Inl e) =
     (ia \<noteq> [] \<and> (\<exists>name \<in> set ia. name \<notin> {''planner'', ''research_plan'', ''generate'',
                                              ''reflect'', ''research_critique''})) \<and>
   create_session self uuid uid eid topic maxrev ia =
     (if ia \<noteq> [] \<and> (\<exists>name \<in> set ia. name \<notin> {''planner'', ''research_plan'', ''generate'',
                                                ''reflect'', ''research_critique''})
      then Inl (ValueError ia [''planner'', ''research_plan'', ''generate'', ''reflect'',
                               ''research_critique''])
      else Inr ((uuid, \<lparr>thread_id = uuid\<rparr>,
                 \<lparr>task = topic, lnode = '''', plan = '''', draft = '''', critique = '''',
                  content = [], queries = [], revision_number = 0, max_revisions = maxrev,
                  count = 0, user_id = Some uid, essay_id = Some eid,
                  session_id = Some uuid\<rparr>),
                self\<lparr>graph := \<lparr>interrupt_after = (if ia = [] then None else Some ia),
                                memory = (\<lambda>_. [])\<rparr>\<rparr>))"
  by (simp add: create_session_def build_graph_def node_names_build_graph_structure
      list_ex_iff Let_def)

section \<open>Running a step\<close>

text \<open>
  C8. \<open>run_step\<close> always returns a dictionary. When the engine raises (its own
  exception, or the one a model or search provider raised inside a node), the dictionary
  has \<open>success\<close> false, the message of the exception under \<open>error\<close>, and \<open>None\<close> for
  \<open>current_state\<close> and \<open>next_node\<close>. When the engine returns, it has \<open>success\<close> true,
  the response, and the current state, which is the response.
\<close>

theorem run_step_never_raises:
  "(case fst (invoke (graph self) envs input cfg) of
      Inl e \<Rightarrow>
        fst (run_step self envs cfg input) =
          \<lparr>success = False, error = Some (exc_message e), response = None,
           current_state = None, next_node = None, metadata = None\<rparr>
    | Inr v \<Rightarrow>
        (\<exists>nxt md. fst (run_step self envs cfg input) =
          \<lparr>success = True, error = None, response = Some v,
           current_state = Some v, next_node = Some nxt, metadata = Some md\<rparr>))"
proof (cases "start_checkpoint (graph self) input cfg")
  case None
  then show ?thesis by (simp add: run_step_def invoke_def)
next
  case (Some p)
  obtain start below where p: "p = (start, below)" by (cases p)
  obtain cp' hist' err where
    r: "run_loop (pause_points (graph self)) envs 0 start below = (cp', hist', err)"
    by (cases "run_loop (pause_points (graph self)) envs 0 start below")
  show ?thesis
  proof (cases err)
    case None
    with Some p r show ?thesis by (simp add: run_step_def invoke_def get_state_save)
  next
    case (Some e)
    with \<open>start_checkpoint (graph self) input cfg = Some p\<close> p r show ?thesis
      by (simp add: run_step_def invoke_def)
  qed
qed

theorem run_step_never_raises_witness:
  "fst (run_step session_writer (\<lambda>_. failing_providers) \<lparr>thread_id = ''s1''\<rparr>
          (Some session_state)) =
     \<lparr>success = False, error = Some ''rate limit'', response = None,
      current_state = None, next_node = None, metadata = None\<rparr>"
  using run_step_never_raises [of session_writer "\<lambda>_. failing_providers"
      "\<lparr>thread_id = ''s1''\<rparr>" "Some session_state"]
  by (simp add: example_failing_invoke)

section \<open>Editing the state by hand\<close>

text \<open>
  C4. The claim is that \<open>update_state\<close> overwrites the named field and leaves every
  other field as it was, \<open>count\<close> among them. \<open>update_state\<close> hands the whole dictionary
  of the current values, with the one key replaced, to the engine, which writes every key
  to its channel; \<open>count\<close> has the reducer \<^verbatim>\<open>operator.add\<close>, so the current count is added
  to itself (\<open>apply_writes_values_dict\<close>, \<open>apply_writes_plan\<close>). Here the session is
  paused after \<^verbatim>\<open>planner\<close> with \<open>count\<close> 1, the plan is saved the way \<^verbatim>\<open>save_plan\<close> of
  \<^verbatim>\<open>src/app.py\<close> does it, and \<open>count\<close> is 2 afterwards.
\<close>

theorem update_state_changes_count:
  "get_state (graph paused_writer) \<lparr>thread_id = ''s1''\<rparr> = Some planner_checkpoint \<and>
   count (cp_values planner_checkpoint) = 1 \<and>
   (\<exists>w. update_state paused_writer \<lparr>thread_id = ''s1''\<rparr> ''plan'' (PyStr ''my plan'') ''planner''
           = Some (\<lparr>upd_success = True, upd_error = None\<rparr>, w) \<and>
        map_option (\<lambda>c. (plan (cp_values c), count (cp_values c)))
          (get_state (graph w) \<lparr>thread_id = ''s1''\<rparr>) = Some (''my plan'', 2))"
  by (simp add: update_state_def get_state_def paused_writer_def planner_checkpoint_def
      session_state_def values_dict_def graph_update_state_def
      node_names_build_graph_structure apply_writes_def write_channel_def
      successors_build_graph_structure START_def save_def Let_def)

section \<open>Pausing and resuming\<close>

text \<open>
  C9. Take any writer, whatever its pause points, and any call of \<open>run_step\<close> that
  succeeds and leaves a run that is not over: its newest checkpoint was written by node
  \<open>n\<close> and node \<open>m\<close> is scheduled. Then \<open>n\<close> is a pause point and \<open>m\<close> is the node after
  \<open>n\<close>, not \<open>n\<close> itself; the checkpoint of \<open>n\<close> is the newest of the thread, so \<open>m\<close> has
  not run; and of the checkpoints this call wrote, none but the newest is the one of a
  pause point: execution halts right after a pause point, before the next step. A
  following \<open>run_step\<close> with the same thread configuration and no initial state keeps all
  the checkpoints of the thread and starts with \<open>m\<close> on the paused state: its first new
  checkpoint is the one of \<open>m\<close>, or, when \<open>m\<close> raises, it writes none and reports the
  failure.
\<close>

theorem pause_then_resume:
  assumes run1: "run_step self envs cfg input = (res1, self1)"
      and ok1: "success res1"
      and by_n: "metadata res1 = Some (Loop, n)"
      and at_s1: "current_state res1 = Some s1"
      and next_m: "next_node res1 = Some (m # ms)"
      and run2: "run_step self1 envs' cfg None = (res2, self2)"
  shows "n \<in> set (pause_points (graph self)) \<and>
         m # ms = successors build_graph_structure n s1 \<and> m \<noteq> n \<and>
         (\<exists>new1. memory (graph self1) (thread_id cfg) =
                   new1 @ memory (graph self) (thread_id cfg) \<and>
                 hd new1 = \<lparr>cp_values = s1, cp_next = m # ms, cp_source = Loop, cp_writer = n\<rparr> \<and>
                 (\<forall>c\<in>set (tl new1). cp_source c = Loop \<longrightarrow>
                                      cp_writer c \<notin> set (pause_points (graph self)))) \<and>
         (case node_step build_graph_structure (envs' 0) m s1 of
            Inl e \<Rightarrow>
              res2 = \<lparr>success = False, error = Some (exc_message e), response = None,
                      current_state = None, next_node = None, metadata = None\<rparr> \<and>
              memory (graph self2) (thread_id cfg) = memory (graph self1) (thread_id cfg)
          | Inr s2 \<Rightarrow>
              (\<exists>new2. memory (graph self2) (thread_id cfg) =
                 new2 @ \<lparr>cp_values = s2, cp_next = successors build_graph_structure m s2,
                         cp_source = Loop, cp_writer = m\<rparr> #
                 memory (graph self1) (thread_id cfg)))"
proof -
  let ?P = "pause_points (graph self)"
  let ?tid = "thread_id cfg"
  from run_step_success [OF run1 ok1] obtain start below cp1 hist1 where
    st: "start_checkpoint (graph self) input cfg = Some (start, below)" and
    loop1: "run_loop ?P envs 0 start below = (cp1, hist1, None)" and
    self1: "self1 = self\<lparr>graph := save (graph self) cfg (cp1 # hist1)\<rparr>" and
    cur: "current_state res1 = Some (cp_values cp1)" and
    nxt: "next_node res1 = Some (cp_next cp1)" and
    md: "metadata res1 = Some (cp_source cp1, cp_writer cp1)"
    by (elim exE conjE)
  from cur at_s1 have v1: "cp_values cp1 = s1" by simp
  from nxt next_m have n1: "cp_next cp1 = m # ms" by simp
  from md by_n have w1: "cp_source cp1 = Loop" "cp_writer cp1 = n" by simp_all
  from run_loop_history [OF loop1] obtain new where
    new: "cp1 # hist1 = new @ start # below" and
    src: "\<forall>c\<in>set new. cp_source c = Loop \<and>
            cp_next c = successors build_graph_structure (cp_writer c) (cp_values c)" and
    tl: "\<forall>c\<in>set (tl new). cp_writer c \<notin> set ?P" and
    stop: "None = (None :: py_exception option) \<and> cp_next cp1 \<noteq> [] \<longrightarrow>
             new \<noteq> [] \<and> cp_writer cp1 \<in> set ?P"
    by (elim exE conjE)
  from stop n1 have ne: "new \<noteq> []" and inP: "cp_writer cp1 \<in> set ?P" by simp_all
  from ne new have hd_new: "hd new = cp1" by (cases new) simp_all
  with ne have "cp1 \<in> set new" by (cases new) simp_all
  with src have "cp_next cp1 = successors build_graph_structure (cp_writer cp1) (cp_values cp1)"
    by simp
  with n1 w1 v1 have succ: "m # ms = successors build_graph_structure n s1" by simp
  have "m \<in> set (successors build_graph_structure n s1)" by (simp flip: succ)
  with successors_no_self_loop [of n s1] have mn: "m \<noteq> n" by (cases "m = n") simp_all
  have cp1_eq: "cp1 = \<lparr>cp_values = s1, cp_next = m # ms, cp_source = Loop, cp_writer = n\<rparr>"
    using v1 n1 w1 by simp
  have mem1: "memory (graph self1) ?tid = cp1 # hist1"
    by (simp add: self1 memory_save)
  have hist: "\<exists>new1. memory (graph self1) ?tid = new1 @ memory (graph self) ?tid \<and>
                hd new1 = \<lparr>cp_values = s1, cp_next = m # ms, cp_source = Loop, cp_writer = n\<rparr> \<and>
                (\<forall>c\<in>set (tl new1). cp_source c = Loop \<longrightarrow> cp_writer c \<notin> set ?P)"
  proof -
    from start_checkpoint_memory [OF st] show ?thesis
    proof (elim disjE conjE)
      assume "start # below = memory (graph self) ?tid"
      with new mem1 have "memory (graph self1) ?tid = new @ memory (graph self) ?tid" by simp
      with hd_new cp1_eq tl show ?thesis by (intro exI [of _ new]) simp
    next
      assume i: "cp_source start = Input" and "below = memory (graph self) ?tid"
      with new mem1 have a: "memory (graph self1) ?tid = (new @ [start]) @ memory (graph self) ?tid"
        by simp
      from ne hd_new cp1_eq have b: "hd (new @ [start]) =
          \<lparr>cp_values = s1, cp_next = m # ms, cp_source = Loop, cp_writer = n\<rparr>" by simp
      from ne tl i have c: "\<forall>c\<in>set (tl (new @ [start])). cp_source c = Loop \<longrightarrow>
          cp_writer c \<notin> set ?P" by (cases new) simp_all
      from a b c show ?thesis by (intro exI [of _ "new @ [start]"] conjI)
    qed
  qed
  have P1: "pause_points (graph self1) = ?P" by (simp add: self1 pause_points_save)
  from run_step_resume [OF run2 mem1] obtain cp2 hist2 err2 where
    loop2: "run_loop (pause_points (graph self1)) envs' 0 cp1 hist1 = (cp2, hist2, err2)" and
    mem2: "memory (graph self2) ?tid = cp2 # hist2" and
    res2: "case err2 of
             Some e \<Rightarrow> res2 = \<lparr>success = False, error = Some (exc_message e), response = None,
                               current_state = None, next_node = None, metadata = None\<rparr>
           | None \<Rightarrow> success res2"
    by (elim exE conjE)
  note first = run_loop_first_step [OF loop2 n1, unfolded v1]
  have resume: "case node_step build_graph_structure (envs' 0) m s1 of
            Inl e \<Rightarrow>
              res2 = \<lparr>success = False, error = Some (exc_message e), response = None,
                      current_state = None, next_node = None, metadata = None\<rparr> \<and>
              memory (graph self2) ?tid = memory (graph self1) ?tid
          | Inr s2 \<Rightarrow>
              (\<exists>new2. memory (graph self2) ?tid =
                 new2 @ \<lparr>cp_values = s2, cp_next = successors build_graph_structure m s2,
                         cp_source = Loop, cp_writer = m\<rparr> #
                 memory (graph self1) ?tid)"
  proof (cases "node_step build_graph_structure (envs' 0) m s1")
    case (Inl e)
    with first have "cp2 = cp1" "hist2 = hist1" "err2 = Some e" by simp_all
    with res2 mem1 mem2 Inl show ?thesis by simp
  next
    case (Inr s2)
    with first mem1 mem2 show ?thesis by simp
  qed
  from inP w1 succ mn hist resume show ?thesis by simp
qed

theorem pause_then_resume_witness:
  "run_step session_writer (\<lambda>_. example_providers) \<lparr>thread_id = ''s1''\<rparr> (Some session_state) =
     (\<lparr>success = True, error = None, response = Some (cp_values planner_checkpoint),
       current_state = Some (cp_values planner_checkpoint),
       next_node = Some [''research_plan''], metadata = Some (Loop, ''planner'')\<rparr>,
      paused_writer) \<and>
   ''planner'' \<in> set (pause_points (graph session_writer)) \<and>
   (\<exists>new2. memory (graph (snd (run_step paused_writer (\<lambda>_. example_providers)
                                  \<lparr>thread_id = ''s1''\<rparr> None))) ''s1'' =
            new2 @ research_plan_checkpoint # memory (graph paused_writer) ''s1'')"
proof -
  let ?cfg = "\<lparr>thread_id = ''s1''\<rparr>"
  let ?r2 = "run_step paused_writer (\<lambda>_. example_providers) ?cfg None"
  have run2: "?r2 = (fst ?r2, snd ?r2)" by simp
  note t = pause_then_resume [OF example_run1 _ _ _ _ run2,
      where n = "''planner''" and ?s1.0 = "cp_values planner_checkpoint"
        and m = "''research_plan''" and ms = "[]"]
  have c: "''planner'' \<in> set (pause_points (graph session_writer)) \<and>
        (case node_step build_graph_structure example_providers ''research_plan''
                (cp_values planner_checkpoint) of
           Inl e \<Rightarrow> True
         | Inr s2 \<Rightarrow>
             (\<exists>new2. memory (graph (snd ?r2)) (thread_id ?cfg) =
                new2 @ \<lparr>cp_values = s2,
                        cp_next = successors build_graph_structure ''research_plan'' s2,
                        cp_source = Loop, cp_writer = ''research_plan''\<rparr> #
                memory (graph paused_writer) (thread_id ?cfg)))"
    using t by (simp split: sum.splits)
  have rp: "\<lparr>cp_values = cp_values research_plan_checkpoint,
             cp_next = successors build_graph_structure ''research_plan''
                         (cp_values research_plan_checkpoint),
             cp_source = Loop, cp_writer = ''research_plan''\<rparr> = research_plan_checkpoint"
    by (simp add: example_research_plan_next) (simp add: research_plan_checkpoint_def)
  from c have "\<exists>new2. memory (graph (snd ?r2)) ''s1'' =
      new2 @ research_plan_checkpoint # memory (graph paused_writer) ''s1''"
    by (simp add: example_research_plan rp)
  with c example_run1 show ?thesis by simp
qed

text \<open>
  The second call above is made on the writer as the first call left it. A call of
  \<open>create_session\<close> in between is another matter: \<^verbatim>\<open>_build_graph\<close> compiles a new graph
  over a new in-memory checkpoint store and \<open>create_session\<close> assigns it to
  \<^verbatim>\<open>self.graph\<close>, so the paused thread has no checkpoint any more and its next
  \<open>run_step\<close> reports a failure, whatever the providers.
\<close>

lemma create_session_forgets_other_sessions:
  "\<exists>w. create_session paused_writer ''s2'' 2 8 ''dogs'' 2 [] =
          Inr ((''s2'', \<lparr>thread_id = ''s2''\<rparr>,
                session_state\<lparr>task := ''dogs'', user_id := Some 2, essay_id := Some 8,
                               session_id := Some ''s2''\<rparr>), w) \<and>
        get_state (graph w) \<lparr>thread_id = ''s1''\<rparr> = None \<and>
        fst (run_step w envs \<lparr>thread_id = ''s1''\<rparr> None) =
          \<lparr>success = False, error = Some ''Received no input for __start__'', response = None,
           current_state = None, next_node = None, metadata = None\<rparr>"
  by (simp add: create_session_def build_graph_def Let_def session_state_def get_state_def
      run_step_def invoke_def start_checkpoint_def)

end
